theory Spec2Isabelle
  imports Complex_Main "HOL-Library.Word"
begin

section \<open>Numeric types and failures\<close>

text \<open>
  The template parameter \<open>Real\<close> of \<open>tri_mesh\<close> is taken to be an exact ordered field and
  is modelled by \<^typ>\<open>real\<close>: every statement below is about exact arithmetic, not about
  the rounding of a floating-point instance. \<open>std::size_t\<close> is a 64-bit word, so that
  \<open>2*node_count_ - boundary_node_count_ - 2\<close> wraps as it does in the source. Values of
  type \<open>long\<close> are only stored, compared with zero and converted to \<open>std::size_t\<close>; they are
  integers, and the conversion is \<^const>\<open>word_of_int\<close>.
\<close>

type_synonym size_t = "64 word"
type_synonym long = int

text \<open>
  The two exception classes the source throws carry their message. \<open>out_of_bounds\<close> stands
  for an \<open>operator[]\<close>, \<open>back()\<close> or iterator dereference outside the container, and
  \<open>no_return\<close> for control reaching the end of a value-returning function: the source has
  undefined behaviour there, and the model stops with that mark.
\<close>

datatype error = logic_error string | domain_error string | out_of_bounds | no_return

definition subscript :: "'a list \<Rightarrow> size_t \<Rightarrow> error + 'a" where
  "subscript v i = (if unat i < length v then Inr (v ! unat i) else Inl out_of_bounds)"

definition resize :: "nat \<Rightarrow> 'a::zero list \<Rightarrow> 'a list" where
  "resize n v = take n v @ replicate (n - length v) 0"

section \<open>Geometric predicates\<close>

definition left :: "real \<Rightarrow> real \<Rightarrow> real \<Rightarrow> real \<Rightarrow> real \<Rightarrow> real \<Rightarrow> bool" where
  "left x1 y1 x2 y2 x0 y0 =
     (let dx1 = x2 - x1; dy1 = y2 - y1;
          dx2 = x0 - x1; dy2 = y0 - y1
      in dx1 * dy2 \<ge> dx2 * dy1)"

definition forward :: "real \<Rightarrow> real \<Rightarrow> real \<Rightarrow> real \<Rightarrow> real \<Rightarrow> real \<Rightarrow> bool" where
  "forward xa ya xb yb xc yc = ((xb - xa) * (xc - xa) + (yb - ya) * (yc - ya) \<ge> 0)"

section \<open>Triangle geometry\<close>

record nodal_index =
  i1 :: real
  i2 :: real
  i3 :: real

text \<open>
  The constructor of \<open>triangle\<close> sets the six coordinates only; the other five members hold
  whatever the record holds before \<open>circum\<close> runs.
\<close>

record triangle =
  x1 :: real
  y1 :: real
  x2 :: real
  y2 :: real
  x3 :: real
  y3 :: real
  xc :: real
  yc :: real
  circumradius :: real
  area :: real
  aspect_ratio :: real

text \<open>
  \<open>fpclassify(t.area) == FP_ZERO\<close> is the test \<open>area t = 0\<close>. The loop over \<open>i\<close> runs through
  the three positions of \<open>u\<close>, updating \<open>fx\<close> and \<open>fy\<close> together.
\<close>

definition circum :: "triangle \<Rightarrow> triangle" where
  "circum t0 =
     (let u = [x3 t0 - x2 t0, x1 t0 - x3 t0, x2 t0 - x1 t0];
          v = [y3 t0 - y2 t0, y1 t0 - y3 t0, y2 t0 - y1 t0];
          t = t0\<lparr>area := (u ! 0 * v ! 1 - u ! 1 * v ! 0) / 2\<rparr>
      in if area t = 0 then t\<lparr>aspect_ratio := 0\<rparr>
         else
           (let squared_distance = [x1 t * x1 t + y1 t * y1 t,
                                    x2 t * x2 t + y2 t * y2 t,
                                    x3 t * x3 t + y3 t * y3 t];
                (fx, fy) = fold (\<lambda>i (fx, fy). (fx + squared_distance ! i * v ! i,
                                              fy + squared_distance ! i * u ! i))
                                [0, 1, 2] (0, 0);
                t = t\<lparr>xc := fx / (4 * area t)\<rparr>;
                t = t\<lparr>yc := fy / (4 * area t)\<rparr>;
                t = t\<lparr>circumradius := sqrt ((xc t - x1 t) * (xc t - x1 t)
                                           + (yc t - y1 t) * (yc t - y1 t))\<rparr>;
                squared_vector = [u ! 0 * u ! 0 + v ! 0 * v ! 0,
                                  u ! 1 * u ! 1 + v ! 1 * v ! 1,
                                  u ! 2 * u ! 2 + v ! 2 * v ! 2]
            in t\<lparr>aspect_ratio := 2 * \<bar>area t\<bar> /
                    (sqrt (squared_vector ! 0) + sqrt (squared_vector ! 1)
                     + sqrt (squared_vector ! 2) * circumradius t)\<rparr>))"

section \<open>The mesh\<close>

text \<open>
  The members of \<open>tri_mesh\<close>. The iterator pairs \<open>x_begin_\<close>, \<open>x_end_\<close> and \<open>y_begin_\<close>,
  \<open>y_end_\<close> are the coordinate sequences they delimit.
\<close>

record mesh =
  x_range :: "real list"
  y_range :: "real list"
  nodes :: "size_t list"
  node_count :: size_t
  boundary_node_count :: size_t
  arc_count :: size_t
  triangle_count :: size_t
  list :: "long list"
  lptr :: "size_t list"
  lend :: "size_t list"
  lnew :: size_t

text \<open>The three kinds of indexed store of the constructor, each checked against the size.\<close>

datatype store = set_list nat long | set_lptr nat size_t | set_lend nat size_t

fun assign :: "store \<Rightarrow> mesh \<Rightarrow> error + mesh" where
  "assign (set_list i v) m =
     (if i < length (list m) then Inr (m\<lparr>list := (list m)[i := v]\<rparr>) else Inl out_of_bounds)"
| "assign (set_lptr i v) m =
     (if i < length (lptr m) then Inr (m\<lparr>lptr := (lptr m)[i := v]\<rparr>) else Inl out_of_bounds)"
| "assign (set_lend i v) m =
     (if i < length (lend m) then Inr (m\<lparr>lend := (lend m)[i := v]\<rparr>) else Inl out_of_bounds)"

fun assign_all :: "store list \<Rightarrow> mesh \<Rightarrow> error + mesh" where
  "assign_all [] m = Inr m"
| "assign_all (s # ss) m = (case assign s m of Inl e \<Rightarrow> Inl e | Inr m' \<Rightarrow> assign_all ss m')"

definition same_length_message :: string where
  "same_length_message = ''X and Y must be the same length.'' @ [CHR 0x0A]"

definition three_nodes_message :: string where
  "three_nodes_message = ''X and Y must have at least three nodes for meshing.'' @ [CHR 0x0A]"

definition co_linear_message :: string where
  "co_linear_message = ''The first three nodes must not be co-linear.'' @ [CHR 0x0A]"

text \<open>
  The constructor. Its first argument gives what the scalar members hold before the body
  runs (they have no initialiser); the vector members start empty. The body ends after
  the first triangle is stored: the source has a comment where \<open>lnew\<close> would be set and the
  remaining nodes added, and no statement. The local \<open>tol\<close> is not used.
\<close>

definition tri_mesh :: "mesh \<Rightarrow> real list \<Rightarrow> real list \<Rightarrow> error + mesh" where
  "tri_mesh uninit x y =
     (let m = uninit\<lparr>nodes := [], list := [], lptr := [], lend := []\<rparr>;
          m = m\<lparr>node_count := of_nat (length x)\<rparr>
      in if node_count m \<noteq> of_nat (length y) then Inl (logic_error same_length_message)
         else if node_count m < 3 then Inl (domain_error three_nodes_message)
         else
           (let m = m\<lparr>x_range := x, y_range := y\<rparr>;
                m = m\<lparr>list := resize (unat (node_count m)) (list m)\<rparr>;
                m = m\<lparr>lptr := resize (unat (node_count m)) (lptr m)\<rparr>;
                m = m\<lparr>lend := resize (unat (node_count m)) (lend m)\<rparr>
            in if \<not> left (x ! 0) (y ! 0) (x ! 1) (y ! 1) (x ! 2) (y ! 2)
               then assign_all
                      [set_list 0 3, set_lptr 0 2, set_list 1 (- 2), set_lptr 1 1, set_lend 0 2,
                       set_list 2 1, set_lptr 2 4, set_list 3 (- 3), set_lptr 3 3, set_lend 1 4,
                       set_list 4 2, set_lptr 4 6, set_list 5 (- 1), set_lptr 5 5, set_lend 2 6]
                      m
               else if \<not> left (x ! 1) (y ! 1) (x ! 0) (y ! 0) (x ! 2) (y ! 2)
               then assign_all
                      [set_list 0 2, set_lptr 0 2, set_list 1 (- 3), set_lptr 1 1, set_lend 0 2,
                       set_list 2 3, set_lptr 2 4, set_list 3 (- 1), set_lptr 3 3, set_lend 1 4,
                       set_list 4 1, set_lptr 4 6, set_list 5 (- 2), set_lptr 5 5, set_lend 2 6]
                      m
               else Inl (logic_error co_linear_message)))"

text \<open>
  \<open>find_triangle\<close> reads the last and the first neighbour of \<open>index\<close> and ends there: the body
  has no \<open>return\<close> statement.
\<close>

definition find_triangle :: "mesh \<Rightarrow> size_t \<Rightarrow> real \<Rightarrow> real \<Rightarrow> error + nodal_index" where
  "find_triangle m index x y =
     (let xp = x; yp = y; n0 = index in
      case subscript (lend m) index of
        Inl e \<Rightarrow> Inl e
      | Inr lp \<Rightarrow>
         (case subscript (list m) lp of
            Inl e \<Rightarrow> Inl e
          | Inr nl \<Rightarrow>
             (case subscript (lptr m) lp of
                Inl e \<Rightarrow> Inl e
              | Inr lp \<Rightarrow>
                 (case subscript (list m) lp of
                    Inl e \<Rightarrow> Inl e
                  | Inr nf \<Rightarrow> (let n1 = nf; np = nl; npp = nf in Inl no_return)))))"

text \<open>\<open>add_node\<close> has an empty body and a return type: it ends without a value.\<close>

definition add_node :: "mesh \<Rightarrow> size_t \<Rightarrow> real \<Rightarrow> real \<Rightarrow> size_t \<Rightarrow> size_t \<Rightarrow> error + size_t \<times> mesh" where
  "add_node m index x y search_index node_location = Inl no_return"

subsection \<open>Boundary enumeration\<close>

text \<open>
  The first loop of \<open>build_nodes\<close>, \<open>while(list[start_node] > 0) ++start_node\<close>, and the two
  statements \<open>lp = lend[current_node]; current_node = list[lp]\<close> that advance the walk. The
  loops have no bound in the source, so a run that does not end has the value \<open>None\<close>.
\<close>

partial_function (option) find_start :: "mesh \<Rightarrow> size_t \<Rightarrow> (error + size_t) option" where
  "find_start m start_node =
     (case subscript (list m) start_node of
        Inl e \<Rightarrow> Some (Inl e)
      | Inr v \<Rightarrow> if v > 0 then find_start m (start_node + 1) else Some (Inr start_node))"

definition next_node :: "mesh \<Rightarrow> size_t \<Rightarrow> error + size_t" where
  "next_node m current_node =
     (case subscript (lend m) current_node of
        Inl e \<Rightarrow> Inl e
      | Inr lp \<Rightarrow> (case subscript (list m) lp of
                    Inl e \<Rightarrow> Inl e
                  | Inr v \<Rightarrow> Inr (word_of_int v)))"

partial_function (option) walk ::
  "mesh \<Rightarrow> size_t \<Rightarrow> size_t \<Rightarrow> size_t \<Rightarrow> (error + size_t \<times> mesh) option" where
  "walk m start_node current_node k =
     (if start_node \<noteq> current_node
      then (let k = k + 1; m = m\<lparr>nodes := nodes m @ [current_node]\<rparr> in
            case next_node m current_node of
              Inl e \<Rightarrow> Some (Inl e)
            | Inr c \<Rightarrow> walk m start_node c k)
      else Some (Inr (k, m)))"

definition build_nodes :: "mesh \<Rightarrow> (error + mesh) option" where
  "build_nodes m =
     (let start_node = 0 in
      case subscript (lend m) start_node of
        Inl e \<Rightarrow> Some (Inl e)
      | Inr lp \<Rightarrow>
         (case find_start m start_node of
            None \<Rightarrow> None
          | Some (Inl e) \<Rightarrow> Some (Inl e)
          | Some (Inr start_node) \<Rightarrow>
             (let m = m\<lparr>nodes := nodes m @ [start_node]\<rparr>;
                  k = 1;
                  current_node = start_node
              in case next_node m current_node of
                   Inl e \<Rightarrow> Some (Inl e)
                 | Inr current_node \<Rightarrow>
                    (case walk m start_node current_node k of
                       None \<Rightarrow> None
                     | Some (Inl e) \<Rightarrow> Some (Inl e)
                     | Some (Inr (k, m)) \<Rightarrow>
                        (let m = m\<lparr>boundary_node_count := k\<rparr>;
                             m = m\<lparr>triangle_count :=
                                     2 * node_count m - boundary_node_count m - 2\<rparr>;
                             m = m\<lparr>arc_count := triangle_count m + node_count m - 1\<rparr>
                         in Some (Inr m))))))"

section \<open>Polygon area\<close>

text \<open>
  An iterator into a sequence is the sequence and an offset; \<open>deref\<close> is \<open>*it\<close>, and the
  past-the-end offset has no element. Node indices are natural numbers. \<open>trapezoid\<close> is the
  summand \<open>(x[node_2] - x[node_1]) * (y[node_1] + y[node_2])\<close> with its four reads.
\<close>

definition deref :: "'a list \<Rightarrow> nat \<Rightarrow> error + 'a" where
  "deref v p = (if p < length v then Inr (v ! p) else Inl out_of_bounds)"

definition trapezoid :: "real list \<Rightarrow> real list \<Rightarrow> nat \<Rightarrow> nat \<Rightarrow> error + real" where
  "trapezoid x y node_1 node_2 =
     (if node_2 < length x \<and> node_1 < length x \<and> node_1 < length y \<and> node_2 < length y
      then Inr ((x ! node_2 - x ! node_1) * (y ! node_1 + y ! node_2))
      else Inl out_of_bounds)"

text \<open>
  \<open>polygonal_area\<close> of \<open>triangulation.hpp\<close>. The loop runs \<open>nodes_begin\<close> up to \<open>nodes_end\<close>;
  its argument is the part of the node sequence not yet visited. The statement
  \<open>node_2 = nodes_begin\<close> is read as \<open>node_2 = *nodes_begin\<close>. Before the loop, \<open>node_2\<close> is
  initialised from \<open>*nodes_end\<close>, the offset one past the last node. The overload taking
  containers passes their \<open>cbegin\<close> and \<open>cend\<close> on and is the same function here.
\<close>

fun polygonal_area_loop :: "real list \<Rightarrow> real list \<Rightarrow> nat list \<Rightarrow> nat \<Rightarrow> real \<Rightarrow> error + real" where
  "polygonal_area_loop x y [] node_2 acc = Inr acc"
| "polygonal_area_loop x y (n # rest) node_2 acc =
     (let node_1 = node_2; node_2 = n in
      case trapezoid x y node_1 node_2 of
        Inl e \<Rightarrow> Inl e
      | Inr d \<Rightarrow> polygonal_area_loop x y rest node_2 (acc + d))"

definition polygonal_area :: "real list \<Rightarrow> real list \<Rightarrow> nat list \<Rightarrow> error + real" where
  "polygonal_area x y nodes_seq =
     (let node_length = length nodes_seq in
      if node_length \<le> 3 then Inr 0
      else (case deref nodes_seq (length nodes_seq) of
              Inl e \<Rightarrow> Inl e
            | Inr node_2 \<Rightarrow>
               (case polygonal_area_loop x y nodes_seq node_2 0 of
                  Inl e \<Rightarrow> Inl e
                | Inr acc \<Rightarrow> Inr (- acc / 2))))"

text \<open>
  The free function \<open>area\<close> of \<open>tri_mesh.hpp\<close>. It tests \<open>nodal_boundaries\<close> and reads
  \<open>nodes_[i]\<close>; neither name is declared in its scope, so both are parameters here. It
  starts from \<open>nodes.back()\<close>.
\<close>

fun area_loop :: "real list \<Rightarrow> real list \<Rightarrow> nat list \<Rightarrow> nat list \<Rightarrow> nat \<Rightarrow> real \<Rightarrow> error + real" where
  "area_loop x y nodes_member [] node_2 partial_area = Inr partial_area"
| "area_loop x y nodes_member (i # is) node_2 partial_area =
     (let node_1 = node_2 in
      case deref nodes_member i of
        Inl e \<Rightarrow> Inl e
      | Inr node_2 \<Rightarrow>
         (case trapezoid x y node_1 node_2 of
            Inl e \<Rightarrow> Inl e
          | Inr d \<Rightarrow> area_loop x y nodes_member is node_2 (partial_area + d)))"

definition vector_back :: "'a list \<Rightarrow> error + 'a" where
  "vector_back v = (if v = [] then Inl out_of_bounds else Inr (last v))"

definition area' :: "nat \<Rightarrow> nat list \<Rightarrow> real list \<Rightarrow> real list \<Rightarrow> nat list \<Rightarrow> error + real" where
  "area' nodal_boundaries nodes_member x y nodes_seq =
     (case vector_back nodes_seq of
        Inl e \<Rightarrow> Inl e
      | Inr node_2 \<Rightarrow>
         (case (if nodal_boundaries > 3
                then area_loop x y nodes_member [0..<length nodes_seq] node_2 0
                else Inr 0) of
            Inl e \<Rightarrow> Inl e
          | Inr partial_area \<Rightarrow> Inr (- partial_area / 2)))"

text \<open>
  The shoelace summation of the specification, over the consecutive pairs of the node
  sequence with the last node before the first: the quantity the area functions are
  compared with.
\<close>

definition shoelace :: "real list \<Rightarrow> real list \<Rightarrow> nat list \<Rightarrow> real" where
  "shoelace x y ns =
     (\<Sum>i<length ns.
        (x ! (ns ! i) - x ! (ns ! ((i + length ns - 1) mod length ns)))
        * (y ! (ns ! ((i + length ns - 1) mod length ns)) + y ! (ns ! i)))"

section \<open>Concrete inputs\<close>

text \<open>
  An object before its constructor runs: the scalar members hold arbitrary values. Six
  points whose first three are counterclockwise, the mesh the constructor makes of them,
  the mesh it makes of seven points whose first three are clockwise, and a mesh state of
  three nodes whose hull walk from node 0 enters the cycle 1, 2, 1, ...
\<close>

definition indeterminate :: mesh where
  "indeterminate = \<lparr>x_range = [], y_range = [], nodes = [], node_count = 11,
       boundary_node_count = 12, arc_count = 13, triangle_count = 14,
       list = [], lptr = [], lend = [], lnew = 15\<rparr>"

definition six_x :: "real list" where
  "six_x = [0, 1, 0, 1, 2, 3]"

definition six_y :: "real list" where
  "six_y = [0, 0, 1, 1, 3, 1]"

definition six_seed :: mesh where
  "six_seed = \<lparr>x_range = six_x, y_range = six_y, nodes = [], node_count = 6,
       boundary_node_count = 12, arc_count = 13, triangle_count = 14,
       list = [2, - 3, 3, - 1, 1, - 2], lptr = [2, 1, 4, 3, 6, 5],
       lend = [2, 4, 6, 0, 0, 0], lnew = 15\<rparr>"

definition seven_clockwise :: mesh where
  "seven_clockwise = \<lparr>x_range = [0, 0, 1, 1, 2, 3, 4], y_range = [0, 1, 0, 1, 3, 1, 2],
       nodes = [], node_count = 7, boundary_node_count = 12, arc_count = 13,
       triangle_count = 14, list = [3, - 2, 1, - 3, 2, - 1, 0],
       lptr = [2, 1, 4, 3, 6, 5, 0], lend = [2, 4, 6, 0, 0, 0, 0], lnew = 15\<rparr>"


section \<open>Properties of the predicates\<close>

lemma left_both_iff:
  "left ax ay bx by cx cy \<and> left bx by ax ay cx cy
   \<longleftrightarrow> (bx - ax) * (cy - ay) - (cx - ax) * (by - ay) = 0"
proof -
  have "(ax - bx) * (cy - by) - (cx - bx) * (ay - by)
        = - ((bx - ax) * (cy - ay) - (cx - ax) * (by - ay))"
    by (simp add: algebra_simps)
  then show ?thesis
    unfolding left_def Let_def by auto
qed




section \<open>Properties of the triangle geometry\<close>

text \<open>The signed area \<open>circum\<close> stores, as a function of the six coordinates.\<close>

lemma circum_area:
  "area (circum t) = ((x3 t - x2 t) * (y1 t - y3 t) - (x1 t - x3 t) * (y3 t - y2 t)) / 2"
  by (simp add: circum_def Let_def split: prod.splits)

text \<open>
  Claim C8. When the signed area computed from the three vertices is exactly zero, \<open>circum\<close>
  stores area 0 and aspect ratio 0 and changes nothing else: the circumcentre and the
  circumradius keep the values they had on entry, and the function returns normally.
\<close>

theorem circum_zero_area:
  assumes "(x3 t - x2 t) * (y1 t - y3 t) - (x1 t - x3 t) * (y3 t - y2 t) = 0"
  shows "circum t = t\<lparr>area := 0, aspect_ratio := 0\<rparr>
         \<and> aspect_ratio (circum t) = 0
         \<and> xc (circum t) = xc t \<and> yc (circum t) = yc t
         \<and> circumradius (circum t) = circumradius t"
  using assms by (simp add: circum_def Let_def)

theorem circum_zero_area_witness:
  "circum \<lparr>x1 = 0, y1 = 0, x2 = 1, y2 = 1, x3 = 2, y3 = 2,
           xc = 7, yc = 8, circumradius = 9, area = 5, aspect_ratio = 6\<rparr>
   = \<lparr>x1 = 0, y1 = 0, x2 = 1, y2 = 1, x3 = 2, y3 = 2,
      xc = 7, yc = 8, circumradius = 9, area = 0, aspect_ratio = 0\<rparr>"
  using circum_zero_area [of "\<lparr>x1 = 0, y1 = 0, x2 = 1, y2 = 1, x3 = 2, y3 = 2,
           xc = 7, yc = 8, circumradius = 9, area = 5, aspect_ratio = 6\<rparr>"]
  by simp

text \<open>
  For a triangle of nonzero area the stored aspect ratio is twice the absolute area over
  the first edge length plus the second edge length plus the product of the third edge
  length and the circumradius: only the third edge is scaled. The value is positive.
\<close>

lemma circum_aspect_ratio:
  assumes "area (circum t) \<noteq> 0"
  shows "aspect_ratio (circum t) =
           2 * \<bar>area (circum t)\<bar> /
           (sqrt ((x3 t - x2 t) * (x3 t - x2 t) + (y3 t - y2 t) * (y3 t - y2 t))
            + sqrt ((x1 t - x3 t) * (x1 t - x3 t) + (y1 t - y3 t) * (y1 t - y3 t))
            + sqrt ((x2 t - x1 t) * (x2 t - x1 t) + (y2 t - y1 t) * (y2 t - y1 t))
              * circumradius (circum t))"
  using assms by (simp add: circum_def Let_def split: prod.splits if_splits)

lemma circum_aspect_ratio_positive:
  assumes "area (circum t) \<noteq> 0"
  shows "0 < aspect_ratio (circum t)"
proof -
  let ?a = "(x3 t - x2 t) * (x3 t - x2 t) + (y3 t - y2 t) * (y3 t - y2 t)"
  let ?b = "(x1 t - x3 t) * (x1 t - x3 t) + (y1 t - y3 t) * (y1 t - y3 t)"
  let ?c = "(x2 t - x1 t) * (x2 t - x1 t) + (y2 t - y1 t) * (y2 t - y1 t)"
  have r: "0 \<le> circumradius (circum t)"
    using assms by (simp add: circum_def Let_def split: prod.splits if_splits)
  have "x3 t - x2 t \<noteq> 0 \<or> y3 t - y2 t \<noteq> 0"
    using assms by (auto simp: circum_area)
  then have a: "0 < sqrt ?a"
    by (simp add: sum_squares_gt_zero_iff)
  have "0 \<le> sqrt ?b" and "0 \<le> sqrt ?c * circumradius (circum t)"
    using r by simp_all
  with a have "0 < sqrt ?a + sqrt ?b + sqrt ?c * circumradius (circum t)"
    by linarith
  moreover have "0 < 2 * \<bar>area (circum t)\<bar>"
    using assms by simp
  ultimately show ?thesis
    by (simp only: circum_aspect_ratio [OF assms] divide_pos_pos)
qed

lemma sqrt_2500: "sqrt 2500 = 50"
  by (rule real_sqrt_unique) simp_all

lemma sqrt_1600: "sqrt 1600 = 40"
  by (rule real_sqrt_unique) simp_all

lemma sqrt_900: "sqrt 900 = 30"
  by (rule real_sqrt_unique) simp_all

lemma sqrt_625: "sqrt 625 = 25"
  by (rule real_sqrt_unique) simp_all

text \<open>
  Claim C7, evaluated on the right triangle (0,0), (30,0), (0,40): area 600, edge lengths
  50, 40 and 30, circumradius 25. \<open>circum\<close> stores 1200 / (50 + 40 + 30 * 25) = 10/7, which
  is above 1, while twice the area over the product of the perimeter and the circumradius
  is 1200 / (120 * 25) = 2/5.
\<close>

theorem circum_aspect_ratio_3_4_5:
  "(let t = circum \<lparr>x1 = 0, y1 = 0, x2 = 30, y2 = 0, x3 = 0, y3 = 40,
                     xc = 0, yc = 0, circumradius = 0, area = 0, aspect_ratio = 0\<rparr>
    in area t = 600 \<and> circumradius t = 25 \<and> aspect_ratio t = 10 / 7
       \<and> 2 * \<bar>area t\<bar> /
           ((sqrt ((x3 t - x2 t) * (x3 t - x2 t) + (y3 t - y2 t) * (y3 t - y2 t))
             + sqrt ((x1 t - x3 t) * (x1 t - x3 t) + (y1 t - y3 t) * (y1 t - y3 t))
             + sqrt ((x2 t - x1 t) * (x2 t - x1 t) + (y2 t - y1 t) * (y2 t - y1 t)))
            * circumradius t) = 2 / 5
       \<and> \<not> aspect_ratio t \<le> 1)"
  by (simp add: circum_def Let_def sqrt_2500 sqrt_1600 sqrt_900 sqrt_625)

section \<open>Properties of the constructor\<close>


lemma size_t_of_nat_less_3:
  "a < 2 ^ 64 \<Longrightarrow> (of_nat a :: size_t) < 3 \<longleftrightarrow> a < 3"
  by (simp add: word_less_nat_alt unat_of_nat)

lemma size_t_unat_of_nat: "a < 2 ^ 64 \<Longrightarrow> unat (of_nat a :: size_t) = a"
  by (simp add: unat_of_nat)







subsection \<open>The stored seed\<close>

lemma assign_all_seed:
  assumes "list m = [a0, a1, a2, a3, a4, a5] @ lr"
    and "lptr m = [p0, p1, p2, p3, p4, p5] @ pr"
    and "lend m = [e0, e1, e2] @ er"
  shows "assign_all
           [set_list 0 b0, set_lptr 0 q0, set_list 1 b1, set_lptr 1 q1, set_lend 0 f0,
            set_list 2 b2, set_lptr 2 q2, set_list 3 b3, set_lptr 3 q3, set_lend 1 f1,
            set_list 4 b4, set_lptr 4 q4, set_list 5 b5, set_lptr 5 q5, set_lend 2 f2] m
         = Inr (m\<lparr>list := [b0, b1, b2, b3, b4, b5] @ lr,
                  lptr := [q0, q1, q2, q3, q4, q5] @ pr,
                  lend := [f0, f1, f2] @ er\<rparr>)"
  using assms by (simp add: eval_nat_numeral)

lemma assign_all_short:
  assumes "length (list m) < 6"
  shows "assign_all
           [set_list 0 b0, set_lptr 0 q0, set_list 1 b1, set_lptr 1 q1, set_lend 0 f0,
            set_list 2 b2, set_lptr 2 q2, set_list 3 b3, set_lptr 3 q3, set_lend 1 f1,
            set_list 4 b4, set_lptr 4 q4, set_list 5 b5, set_lptr 5 q5, set_lend 2 f2] m
         = Inl out_of_bounds"
  using assms by (auto split: sum.splits if_splits)

text \<open>
  With at least six points the constructor returns the mesh below: the entries 3, -2, 1,
  -3, 2, -1 when the first three points are clockwise, 2, -3, 3, -1, 1, -2 when they are
  counterclockwise, in both cases with \<open>lptr\<close> 2, 1, 4, 3, 6, 5 and \<open>lend\<close> 2, 4, 6, the rest
  of the three vectors zero, and every other member of the object as it was.
\<close>

lemma tri_mesh_seed:
  assumes "length x < 2 ^ 64" "length x = length y" "6 \<le> length x"
  shows "tri_mesh u x y =
     (if \<not> left (x ! 0) (y ! 0) (x ! 1) (y ! 1) (x ! 2) (y ! 2)
      then Inr (u\<lparr>x_range := x, y_range := y, nodes := [], node_count := of_nat (length x),
                  list := [3, - 2, 1, - 3, 2, - 1] @ replicate (length x - 6) 0,
                  lptr := [2, 1, 4, 3, 6, 5] @ replicate (length x - 6) 0,
                  lend := [2, 4, 6] @ replicate (length x - 3) 0\<rparr>)
      else if \<not> left (x ! 1) (y ! 1) (x ! 0) (y ! 0) (x ! 2) (y ! 2)
      then Inr (u\<lparr>x_range := x, y_range := y, nodes := [], node_count := of_nat (length x),
                  list := [2, - 3, 3, - 1, 1, - 2] @ replicate (length x - 6) 0,
                  lptr := [2, 1, 4, 3, 6, 5] @ replicate (length x - 6) 0,
                  lend := [2, 4, 6] @ replicate (length x - 3) 0\<rparr>)
      else Inl (logic_error co_linear_message))"
proof -
  obtain k where k: "length x = 6 + k"
    using assms(3) by (auto simp: le_iff_add)
  have r6: "resize (length y) [] = [0, 0, 0, 0, 0, 0::long] @ replicate (length y - 6) 0"
    by (simp add: resize_def k assms(2) [symmetric] eval_nat_numeral)
  have p6: "resize (length y) [] = [0, 0, 0, 0, 0, 0::size_t] @ replicate (length y - 6) 0"
    by (simp add: resize_def k assms(2) [symmetric] eval_nat_numeral)
  have e3: "replicate (length y - 3) 0 = [0, 0, 0::size_t] @ replicate (length y - 6) 0"
    by (simp add: k assms(2) [symmetric] eval_nat_numeral)
  have nc: "\<not> (of_nat (length y) :: size_t) < 3"
    using assms by (simp add: size_t_of_nat_less_3)
  show ?thesis
    unfolding tri_mesh_def Let_def
    using assms(1,2) nc
    by (simp add: size_t_unat_of_nat r6 p6 e3 assign_all_seed [unfolded One_nat_def]
          del: assign_all.simps)
qed

text \<open>
  With three, four or five points that pass the three checks, the stores of the seed run
  past the vectors, which were resized to the number of points.
\<close>

lemma tri_mesh_fewer_than_six:
  assumes "length x = length y" and "3 \<le> length x" and "length x < 6"
    and "(x ! 1 - x ! 0) * (y ! 2 - y ! 0) - (x ! 2 - x ! 0) * (y ! 1 - y ! 0) \<noteq> 0"
  shows "tri_mesh u x y = Inl out_of_bounds"
proof -
  have lt: "length x < 2 ^ 64" using assms(3) by simp
  have nc: "\<not> (of_nat (length x) :: size_t) < 3"
    using assms(2) lt by (simp add: size_t_of_nat_less_3)
  have un: "unat (of_nat (length x) :: size_t) = length x"
    using lt by (simp add: size_t_unat_of_nat)
  have nl: "\<not> left (x ! 0) (y ! 0) (x ! 1) (y ! 1) (x ! 2) (y ! 2)
            \<or> \<not> left (x ! 1) (y ! 1) (x ! 0) (y ! 0) (x ! 2) (y ! 2)"
    using assms(4) left_both_iff [of "x ! 0" "y ! 0" "x ! 1" "y ! 1" "x ! 2" "y ! 2"] by blast
  let ?m = "u\<lparr>nodes := [], node_count := of_nat (length x), x_range := x, y_range := y,
               list := resize (length x) [], lptr := resize (length x) [],
               lend := resize (length x) []\<rparr>"
  have len: "length (list ?m) < 6" using assms(3) by (simp add: resize_def)
  show ?thesis
    unfolding tri_mesh_def Let_def
    using nl nc assms(1) [symmetric] un len
    by (auto simp: assign_all_short [unfolded One_nat_def] simp del: assign_all.simps)
qed

text \<open>No store of the constructor touches \<open>lnew\<close> or one of the three derived counts.\<close>

lemma assign_keeps:
  "assign s m = Inr m' \<Longrightarrow>
     lnew m' = lnew m \<and> boundary_node_count m' = boundary_node_count m
     \<and> triangle_count m' = triangle_count m \<and> arc_count m' = arc_count m"
  by (cases s) (auto split: if_splits)

lemma assign_all_keeps:
  "assign_all ss m = Inr m' \<Longrightarrow>
     lnew m' = lnew m \<and> boundary_node_count m' = boundary_node_count m
     \<and> triangle_count m' = triangle_count m \<and> arc_count m' = arc_count m"
proof (induction ss arbitrary: m)
  case Nil
  then show ?case by simp
next
  case (Cons s ss)
  then obtain m1 where a: "assign s m = Inr m1" and b: "assign_all ss m1 = Inr m'"
    by (auto split: sum.splits)
  from assign_keeps [OF a] Cons.IH [OF b] show ?case by simp
qed

lemma tri_mesh_scalars_untouched:
  assumes "tri_mesh u x y = Inr m"
  shows "lnew m = lnew u \<and> boundary_node_count m = boundary_node_count u
       \<and> triangle_count m = triangle_count u \<and> arc_count m = arc_count u"
  using assms unfolding tri_mesh_def Let_def
  by (auto split: if_splits dest!: assign_all_keeps)

lemma six_points: "length six_x = 6" "length six_y = 6"
  "left (six_x ! 0) (six_y ! 0) (six_x ! 1) (six_y ! 1) (six_x ! 2) (six_y ! 2)"
  "\<not> left (six_x ! 1) (six_y ! 1) (six_x ! 0) (six_y ! 0) (six_x ! 2) (six_y ! 2)"
  by (simp_all add: six_x_def six_y_def left_def)

lemma tri_mesh_six:
  "tri_mesh u six_x six_y =
     Inr (u\<lparr>x_range := six_x, y_range := six_y, nodes := [], node_count := 6,
            list := [2, - 3, 3, - 1, 1, - 2], lptr := [2, 1, 4, 3, 6, 5],
            lend := [2, 4, 6, 0, 0, 0]\<rparr>)"
proof -
  have "tri_mesh u six_x six_y =
          Inr (u\<lparr>x_range := six_x, y_range := six_y, nodes := [],
                 node_count := of_nat (length six_x),
                 list := [2, - 3, 3, - 1, 1, - 2] @ replicate (length six_x - 6) 0,
                 lptr := [2, 1, 4, 3, 6, 5] @ replicate (length six_x - 6) 0,
                 lend := [2, 4, 6] @ replicate (length six_x - 3) 0\<rparr>)"
    by (subst tri_mesh_seed) (simp_all only: six_points if_True if_False not_True_eq_False
          not_False_eq_True, simp_all)
  then show ?thesis
    by (simp add: six_points(1) numeral_3_eq_3)
qed

text \<open>
  Claim C5, evaluated on six points whose first three, (0,0), (1,0), (0,1), are
  counterclockwise. The constructor stores the triangle (1,2,3): the pairs 2, -3 and 3, -1
  and 1, -2 in \<open>list\<close>, each a positive and a negative entry. It returns with \<open>lnew\<close> holding
  the value \<open>v\<close> it held before the constructor ran: \<open>lnew\<close> is not set to the first unused
  position.
\<close>

theorem tri_mesh_lnew_unassigned:
  "tri_mesh (indeterminate\<lparr>lnew := v\<rparr>) six_x six_y = Inr (six_seed\<lparr>lnew := v\<rparr>)"
  by (simp add: tri_mesh_six) (simp add: indeterminate_def six_seed_def)

text \<open>
  Claim C2, evaluated on the three points (0,0), (1,0), (0,1) and on the six points. On
  three points the stores of the seed leave the vectors. On six points the constructor
  returns, and the boundary-node, triangle and arc counts hold the values \<open>b\<close>, \<open>t\<close> and \<open>a\<close>
  they held before it ran: it does not call \<open>build_nodes\<close> and derives no count.
\<close>

theorem tri_mesh_counts_unassigned:
  "tri_mesh indeterminate [0, 1, 0] [0, 0, 1] = Inl out_of_bounds
   \<and> tri_mesh (indeterminate\<lparr>boundary_node_count := b, triangle_count := t, arc_count := a\<rparr>)
        six_x six_y
     = Inr (six_seed\<lparr>boundary_node_count := b, triangle_count := t, arc_count := a\<rparr>)"
proof
  show "tri_mesh indeterminate [0, 1, 0] [0, 0, 1] = Inl out_of_bounds"
    by (rule tri_mesh_fewer_than_six) simp_all
  show "tri_mesh (indeterminate\<lparr>boundary_node_count := b, triangle_count := t, arc_count := a\<rparr>)
          six_x six_y
        = Inr (six_seed\<lparr>boundary_node_count := b, triangle_count := t, arc_count := a\<rparr>)"
    by (simp add: tri_mesh_six) (simp add: indeterminate_def six_seed_def)
qed

section \<open>Properties of point location\<close>

text \<open>Whatever the mesh, the start index and the query point, no value is returned.\<close>

lemma find_triangle_no_value: "find_triangle m index x y \<noteq> Inr r"
  by (simp add: find_triangle_def Let_def split: sum.splits)

text \<open>
  Claim C1, evaluated on the mesh of the six points, from node 0, at the query point
  (1/4, 1/4), which lies inside the first triangle (0,0), (1,0), (0,1), and at the query
  point (5, 5), which lies outside it. \<open>find_triangle\<close> reads \<open>lend[0]\<close>, \<open>list[2]\<close>,
  \<open>lptr[2]\<close> and \<open>list[4]\<close> and reaches the end of its body: it returns neither the
  vertex indices of a triangle nor the indices of two hull nodes.
\<close>

theorem find_triangle_returns_nothing:
  "find_triangle six_seed 0 (1 / 4) (1 / 4) = Inl no_return
   \<and> find_triangle six_seed 0 5 5 = Inl no_return"
  by (simp add: find_triangle_def six_seed_def subscript_def)

section \<open>Properties of the boundary enumeration\<close>

lemma next_node_nodes [simp]: "next_node (m\<lparr>nodes := ns\<rparr>) = next_node m"
  by (rule ext) (simp add: next_node_def split: sum.splits)





text \<open>
  When \<open>build_nodes\<close> returns a mesh, the triangle and arc counts of that mesh are the two
  expressions of the source, in arithmetic modulo \<open>2 ^ 64\<close>.
\<close>

lemma build_nodes_counts:
  assumes "build_nodes m = Some (Inr m')"
  shows "triangle_count m' = 2 * node_count m' - boundary_node_count m' - 2
       \<and> arc_count m' = triangle_count m' + node_count m' - 1"
  using assms unfolding build_nodes_def Let_def
  by (auto split: sum.splits option.splits prod.splits)

text \<open>\<open>build_nodes\<close> throws nothing: the only failure is a read outside a vector.\<close>

lemma find_start_no_exception:
  assumes "find_start m c = Some r"
  shows "r \<noteq> Inl (logic_error msg) \<and> r \<noteq> Inl (domain_error msg)"
  by (rule find_start.raw_induct [where P = "\<lambda>m c r. r \<noteq> Inl (logic_error msg)
        \<and> r \<noteq> Inl (domain_error msg)", OF _ assms])
     (auto simp: subscript_def split: if_splits sum.splits)

lemma walk_no_exception:
  assumes "walk m s c k = Some r"
  shows "r \<noteq> Inl (logic_error msg) \<and> r \<noteq> Inl (domain_error msg)"
  by (rule walk.raw_induct [where P = "\<lambda>m s c k r. r \<noteq> Inl (logic_error msg)
        \<and> r \<noteq> Inl (domain_error msg)", OF _ assms])
     (auto simp: next_node_def subscript_def Let_def split: if_splits sum.splits)

lemma build_nodes_no_exception:
  "build_nodes m \<noteq> Some (Inl (logic_error msg)) \<and> build_nodes m \<noteq> Some (Inl (domain_error msg))"
  unfolding build_nodes_def Let_def
  by (auto simp: next_node_def subscript_def split: sum.splits option.splits prod.splits if_splits
           dest: find_start_no_exception walk_no_exception)

text \<open>
  On the mesh the constructor makes of the six points, \<open>build_nodes\<close> starts at node 1,
  finds node 1 again at once and reports one boundary node, nine triangles and fourteen
  arcs.
\<close>

lemma build_nodes_six_seed:
  "build_nodes six_seed =
     Some (Inr (six_seed\<lparr>nodes := [1], boundary_node_count := 1,
                          triangle_count := 9, arc_count := 14\<rparr>))"
  by (simp add: build_nodes_def six_seed_def find_start.simps walk.simps next_node_def
        subscript_def)

subsection \<open>A walk that never comes back\<close>






lemma seven_clockwise_constructed:
  "tri_mesh indeterminate [0, 0, 1, 1, 2, 3, 4] [0, 1, 0, 1, 3, 1, 2] = Inr seven_clockwise"
  by code_simp

section \<open>Properties of the polygon area\<close>

lemma polygonal_area_short: "length ns \<le> 3 \<Longrightarrow> polygonal_area x y ns = Inr 0"
  by (simp add: polygonal_area_def)

lemma polygonal_area_long: "4 \<le> length ns \<Longrightarrow> polygonal_area x y ns = Inl out_of_bounds"
  by (simp add: polygonal_area_def deref_def)

text \<open>
  Claim C6, evaluated on the unit square (0,0), (1,0), (1,1), (0,1) with the node sequence
  0, 1, 2, 3, of counterclockwise area 1. \<open>polygonal_area\<close> initialises \<open>node_2\<close> from
  \<open>*nodes_end\<close>, one past the last node, before the loop: the read is outside the sequence
  and no area is computed.
\<close>

theorem polygonal_area_unit_square:
  "polygonal_area [0, 1, 1, 0] [0, 0, 1, 1] [0, 1, 2, 3] = Inl out_of_bounds"
  by (simp add: polygonal_area_def deref_def)

text \<open>
  The function \<open>area\<close> of \<open>tri_mesh.hpp\<close> starts from \<open>nodes.back()\<close> instead.
\<close>

lemma area_loop_sum:
  assumes "\<forall>n\<in>set ns. n < length x \<and> n < length y"
    and "i \<le> length ns" and "prev < length x" and "prev < length y"
  shows "area_loop x y ns [i..<length ns] prev acc =
           Inr (acc + (\<Sum>j = i..<length ns.
                         (x ! (ns ! j) - x ! (if j = i then prev else ns ! (j - 1)))
                         * (y ! (if j = i then prev else ns ! (j - 1)) + y ! (ns ! j))))"
  using assms(2-4)
proof (induction "length ns - i" arbitrary: i prev acc)
  case 0
  then show ?case by simp
next
  case (Suc d)
  then have lt: "i < length ns" by simp
  then have rng: "ns ! i < length x" "ns ! i < length y"
    using assms(1) by simp_all
  have up: "[i..<length ns] = i # [Suc i..<length ns]"
    using lt by (rule upt_conv_Cons)
  have IH: "area_loop x y ns [Suc i..<length ns] (ns ! i) acc' =
           Inr (acc' + (\<Sum>j = Suc i..<length ns.
                         (x ! (ns ! j) - x ! (if j = Suc i then ns ! i else ns ! (j - 1)))
                         * (y ! (if j = Suc i then ns ! i else ns ! (j - 1)) + y ! (ns ! j))))"
    for acc'
    using Suc.hyps(2) lt rng by (intro Suc.hyps(1)) simp_all
  have s: "(\<Sum>j = Suc i..<length ns.
              (x ! (ns ! j) - x ! (if j = Suc i then ns ! i else ns ! (j - 1)))
              * (y ! (if j = Suc i then ns ! i else ns ! (j - 1)) + y ! (ns ! j)))
         = (\<Sum>j = Suc i..<length ns.
              (x ! (ns ! j) - x ! (if j = i then prev else ns ! (j - 1)))
              * (y ! (if j = i then prev else ns ! (j - 1)) + y ! (ns ! j)))"
    by (rule sum.cong) auto
  show ?case
    unfolding up
    using lt rng Suc.prems(2,3)
    by (simp add: deref_def trapezoid_def IH s sum.atLeast_Suc_lessThan [OF lt] add.assoc)
qed

text \<open>
  With the undeclared names bound to the size of the node sequence and to the sequence
  itself, at least four nodes and every node index inside the coordinate sequences,
  \<open>area\<close> returns the negated half of the shoelace summation.
\<close>

lemma area_shoelace:
  assumes "4 \<le> length ns" and "\<forall>n\<in>set ns. n < length x \<and> n < length y"
  shows "area' (length ns) ns x y ns = Inr (- shoelace x y ns / 2)"
proof -
  have ne: "ns \<noteq> []" using assms(1) by auto
  then have l: "last ns < length x" "last ns < length y"
    using assms(2) by simp_all
  have "(\<Sum>j = 0..<length ns.
            (x ! (ns ! j) - x ! (if j = 0 then last ns else ns ! (j - 1)))
            * (y ! (if j = 0 then last ns else ns ! (j - 1)) + y ! (ns ! j)))
        = shoelace x y ns"
    unfolding shoelace_def atLeast0LessThan
  proof (rule sum.cong)
    fix j assume "j \<in> {..<length ns}"
    then have j: "j < length ns" by simp
    have "(j + length ns - 1) mod length ns = (if j = 0 then length ns - 1 else j - 1)"
      using j by (auto simp: mod_if)
    then show "(x ! (ns ! j) - x ! (if j = 0 then last ns else ns ! (j - 1)))
            * (y ! (if j = 0 then last ns else ns ! (j - 1)) + y ! (ns ! j))
          = (x ! (ns ! j) - x ! (ns ! ((j + length ns - 1) mod length ns)))
            * (y ! (ns ! ((j + length ns - 1) mod length ns)) + y ! (ns ! j))"
      using ne by (simp add: last_conv_nth)
  qed simp
  with area_loop_sum [OF assms(2) _ l, of 0 0] assms(1) ne show ?thesis
    by (simp add: area'_def vector_back_def)
qed

text \<open>On the unit square it returns 1.\<close>

lemma area_unit_square:
  "area' 4 [0, 1, 2, 3] [0, 1, 1, 0] [0, 0, 1, 1] [0, 1, 2, 3] = Inr 1"
  by (simp add: area'_def vector_back_def deref_def trapezoid_def upt_rec)

end
